theory Spec2Isabelle
  imports Complex_Main
begin

section \<open>The update rules of cs231n/optim.py\<close>

text \<open>
  The module \<^verbatim>\<open>assignment2/cs231n/optim.py\<close> holds five first-order update rules
  (\<^verbatim>\<open>sgd\<close>, \<^verbatim>\<open>sgd_momentum\<close>, \<^verbatim>\<open>nesterov_momentum\<close>, \<^verbatim>\<open>rmsprop\<close>, \<^verbatim>\<open>adam\<close>), each
  of the form \<^verbatim>\<open>update(w, dw, config=None) -> (next_w, config)\<close>.

  Conventions of the embedding.
  \<^item> A numpy array is a one-dimensional vector of exact real numbers (\<open>real list\<close>).
    Rounding and overflow of IEEE doubles are not modelled; the literals \<^verbatim>\<open>1e-2\<close>,
    \<^verbatim>\<open>0.9\<close>, ... are the rationals they denote.
  \<^item> Python names refer to array objects, and \<^verbatim>\<open>w -= ...\<close> mutates the object that
    \<^verbatim>\<open>w\<close> names. Arrays therefore live in a store; \<^verbatim>\<open>w\<close>, \<^verbatim>\<open>dw\<close> and the array
    entries of \<^verbatim>\<open>config\<close> are addresses into it. An array that a rule binds to a
    result (a value it returns or writes into \<^verbatim>\<open>config\<close>, and the explicit
    \<^verbatim>\<open>v.copy()\<close>) is allocated at a fresh address; temporaries of an expression are
    plain values.
  \<^item> Every way in which a call does not produce real-valued arrays is a value of
    \<open>error\<close>. A rule returns \<open>Inl e\<close> or \<open>Inr (next_w, config, store)\<close>.
\<close>

subsection \<open>Arrays, the store, errors\<close>

type_synonym addr = nat
type_synonym ndarray = "real list"
type_synonym store = "ndarray list"

text \<open>
  \<open>ValueError\<close>: numpy cannot broadcast the operands. \<open>KeyError\<close>: \<^verbatim>\<open>config[k]\<close> on a
  missing key. \<open>ZeroDivisionError\<close>: Python's \<^verbatim>\<open>0.0 ** n\<close> for negative \<^verbatim>\<open>n\<close>.
  \<open>NonFinite\<close>: an array operation divides by zero or takes the square root of a negative
  number. numpy then warns and carries on with \<^verbatim>\<open>inf\<close> or \<^verbatim>\<open>nan\<close> entries; these have
  no real value, so the model reports the outcome and stops there.
\<close>

datatype error = ValueError | KeyError | ZeroDivisionError | NonFinite

definition andthen :: "error + 'a \<Rightarrow> ('a \<Rightarrow> error + 'b) \<Rightarrow> error + 'b" where
  "andthen r f = (case r of Inl e \<Rightarrow> Inl e | Inr x \<Rightarrow> f x)"

definition alloc :: "store \<Rightarrow> ndarray \<Rightarrow> addr \<times> store" where
  "alloc s a = (length s, s @ [a])"

subsection \<open>The numpy operations the rules use\<close>

text \<open>\<^verbatim>\<open>c * a\<close> for a Python float \<^verbatim>\<open>c\<close> and an array \<^verbatim>\<open>a\<close>.\<close>

definition scale :: "real \<Rightarrow> ndarray \<Rightarrow> ndarray" where
  "scale c a = map (\<lambda>x. c * x) a"

text \<open>\<^verbatim>\<open>a + c\<close> for an array \<^verbatim>\<open>a\<close> and a Python float \<^verbatim>\<open>c\<close>.\<close>

definition add_scalar :: "ndarray \<Rightarrow> real \<Rightarrow> ndarray" where
  "add_scalar a c = map (\<lambda>x. x + c) a"

text \<open>\<^verbatim>\<open>np.power(a, n)\<close> for a literal exponent.\<close>

definition np_power :: "ndarray \<Rightarrow> nat \<Rightarrow> ndarray" where
  "np_power a n = map (\<lambda>x. x ^ n) a"

text \<open>\<^verbatim>\<open>np.zeros_like(a)\<close>.\<close>

definition zeros_like :: "ndarray \<Rightarrow> ndarray" where
  "zeros_like a = replicate (length a) 0"

text \<open>
  A binary operation on two arrays. numpy broadcasts: equal lengths combine
  elementwise, an array of length 1 is stretched to the length of the other, and any
  other pair of lengths raises \<^verbatim>\<open>ValueError\<close>.
\<close>

definition broadcast :: "(real \<Rightarrow> real \<Rightarrow> real) \<Rightarrow> ndarray \<Rightarrow> ndarray \<Rightarrow> error + ndarray" where
  "broadcast f a b =
     (if length a = length b then Inr (map2 f a b)
      else if length a = 1 then Inr (map (\<lambda>y. f (a ! 0) y) b)
      else if length b = 1 then Inr (map (\<lambda>x. f x (b ! 0)) a)
      else Inl ValueError)"

text \<open>\<^verbatim>\<open>a / b\<close> for two arrays: some element is divided by zero exactly when the
  result is not empty and \<^verbatim>\<open>b\<close> holds a zero.\<close>

definition divide :: "ndarray \<Rightarrow> ndarray \<Rightarrow> error + ndarray" where
  "divide a b =
     andthen (broadcast (\<lambda>x y. x / y) a b) (\<lambda>q.
       if q \<noteq> [] \<and> 0 \<in> set b then Inl NonFinite else Inr q)"

text \<open>\<^verbatim>\<open>a / c\<close> for an array \<^verbatim>\<open>a\<close> and a Python float \<^verbatim>\<open>c\<close>.\<close>

definition divide_scalar :: "ndarray \<Rightarrow> real \<Rightarrow> error + ndarray" where
  "divide_scalar a c =
     (if a \<noteq> [] \<and> c = 0 then Inl NonFinite else Inr (map (\<lambda>x. x / c) a))"

text \<open>\<^verbatim>\<open>np.sqrt(a)\<close>.\<close>

definition np_sqrt :: "ndarray \<Rightarrow> error + ndarray" where
  "np_sqrt a = (if \<exists>x \<in> set a. x < 0 then Inl NonFinite else Inr (map sqrt a))"

text \<open>\<^verbatim>\<open>b ** n\<close> for a Python float \<^verbatim>\<open>b\<close> and a Python int \<^verbatim>\<open>n\<close>.\<close>

definition py_pow :: "real \<Rightarrow> int \<Rightarrow> error + real" where
  "py_pow b n = (if b = 0 \<and> n < 0 then Inl ZeroDivisionError else Inr (power_int b n))"

text \<open>
  \<^verbatim>\<open>w -= x\<close>: the array at address \<open>w\<close> is overwritten in place. \<^verbatim>\<open>x\<close> must broadcast
  to the shape of \<^verbatim>\<open>w\<close>, which does not change.
\<close>

definition isub :: "store \<Rightarrow> addr \<Rightarrow> ndarray \<Rightarrow> error + store" where
  "isub s w x =
     (if length x = length (s ! w) then Inr (s[w := map2 (\<lambda>a b. a - b) (s ! w) x])
      else if length x = 1 then Inr (s[w := map (\<lambda>a. a - x ! 0) (s ! w)])
      else Inl ValueError)"

subsection \<open>The configuration dictionary\<close>

text \<open>
  \<^verbatim>\<open>config\<close> is a dictionary; the rules read and write the eleven keys below. A key
  that is absent is \<open>None\<close>. Hyperparameters are Python floats, the counter \<^verbatim>\<open>t\<close> is a
  Python int, and \<^verbatim>\<open>velocity\<close>, \<^verbatim>\<open>cache\<close>, \<^verbatim>\<open>m\<close>, \<^verbatim>\<open>v\<close> name arrays in the store.
\<close>

record config =
  learning_rate :: "real option"
  momentum :: "real option"
  velocity :: "addr option"
  decay_rate :: "real option"
  epsilon :: "real option"
  cache :: "addr option"
  beta1 :: "real option"
  beta2 :: "real option"
  m :: "addr option"
  v :: "addr option"
  t :: "int option"

text \<open>The empty dictionary \<^verbatim>\<open>{}\<close>.\<close>

definition empty_config :: config where
  "empty_config =
     \<lparr>learning_rate = None, momentum = None, velocity = None, decay_rate = None,
      epsilon = None, cache = None, beta1 = None, beta2 = None, m = None, v = None,
      t = None\<rparr>"

text \<open>\<^verbatim>\<open>config.setdefault(k, d)\<close>, on the entry of key \<^verbatim>\<open>k\<close>.\<close>

definition setdefault :: "'a option \<Rightarrow> 'a \<Rightarrow> 'a option" where
  "setdefault cur d = (case cur of None \<Rightarrow> Some d | Some x \<Rightarrow> Some x)"

text \<open>\<^verbatim>\<open>config.setdefault(k, d)\<close> for an array default \<^verbatim>\<open>d\<close>: the new array enters the
  store only when the key is absent.\<close>

definition setdefault_array :: "store \<Rightarrow> addr option \<Rightarrow> ndarray \<Rightarrow> addr option \<times> store" where
  "setdefault_array s cur d =
     (case cur of
        None \<Rightarrow> (let (a, s') = alloc s d in (Some a, s'))
      | Some a \<Rightarrow> (Some a, s))"

text \<open>\<^verbatim>\<open>config[k]\<close>.\<close>

definition lookup :: "'a option \<Rightarrow> error + 'a" where
  "lookup cur = (case cur of None \<Rightarrow> Inl KeyError | Some x \<Rightarrow> Inr x)"

subsection \<open>The rules\<close>

text \<open>\<^verbatim>\<open>sgd\<close>, lines 33-44.\<close>

definition sgd :: "store \<Rightarrow> addr \<Rightarrow> addr \<Rightarrow> config option \<Rightarrow> error + (addr \<times> config \<times> store)" where
  "sgd s w dw config =
     (let config = (case config of None \<Rightarrow> empty_config | Some c \<Rightarrow> c);
          config = config\<lparr>learning_rate := setdefault (learning_rate config) (1 / 100)\<rparr>
      in andthen (lookup (learning_rate config)) (\<lambda>lr.
         andthen (isub s w (scale lr (s ! dw))) (\<lambda>s.
         Inr (w, config, s))))"

text \<open>\<^verbatim>\<open>sgd_momentum\<close>, lines 47-83.\<close>

definition sgd_momentum :: "store \<Rightarrow> addr \<Rightarrow> addr \<Rightarrow> config option \<Rightarrow> error + (addr \<times> config \<times> store)" where
  "sgd_momentum s w dw config =
     (let config = (case config of None \<Rightarrow> empty_config | Some c \<Rightarrow> c);
          config = config\<lparr>learning_rate := setdefault (learning_rate config) (1 / 100)\<rparr>;
          config = config\<lparr>momentum := setdefault (momentum config) (9 / 10)\<rparr>;
          (va, s) = setdefault_array s (velocity config) (zeros_like (s ! w));
          config = config\<lparr>velocity := va\<rparr>
      in andthen (lookup (momentum config)) (\<lambda>mu.
         andthen (lookup (learning_rate config)) (\<lambda>lr.
         andthen (lookup (velocity config)) (\<lambda>va.
         andthen (broadcast (\<lambda>x y. x - y) (scale mu (s ! va)) (scale lr (s ! dw))) (\<lambda>v1.
         let (va, s) = alloc s v1 in
         andthen (broadcast (\<lambda>x y. x + y) (s ! w) (s ! va)) (\<lambda>n1.
         let (next_w, s) = alloc s n1;
             config = config\<lparr>velocity := Some va\<rparr>
         in Inr (next_w, config, s)))))))"

text \<open>\<^verbatim>\<open>nesterov_momentum\<close>, lines 87-126.\<close>

definition nesterov_momentum :: "store \<Rightarrow> addr \<Rightarrow> addr \<Rightarrow> config option \<Rightarrow> error + (addr \<times> config \<times> store)" where
  "nesterov_momentum s w dw config =
     (let config = (case config of None \<Rightarrow> empty_config | Some c \<Rightarrow> c);
          config = config\<lparr>learning_rate := setdefault (learning_rate config) (1 / 100)\<rparr>;
          config = config\<lparr>momentum := setdefault (momentum config) (9 / 10)\<rparr>;
          (va, s) = setdefault_array s (velocity config) (zeros_like (s ! w));
          config = config\<lparr>velocity := va\<rparr>
      in andthen (lookup (momentum config)) (\<lambda>mu.
         andthen (lookup (learning_rate config)) (\<lambda>lr.
         andthen (lookup (velocity config)) (\<lambda>va.
         let (prev_v, s) = alloc s (s ! va) in
         andthen (broadcast (\<lambda>x y. x - y) (scale mu (s ! prev_v)) (scale lr (s ! dw))) (\<lambda>v1.
         let (va, s) = alloc s v1 in
         andthen (broadcast (\<lambda>x y. x - y) (s ! w) (scale mu (s ! prev_v))) (\<lambda>d1.
         andthen (broadcast (\<lambda>x y. x + y) d1 (scale (1 + mu) (s ! va))) (\<lambda>n1.
         let (next_w, s) = alloc s n1;
             config = config\<lparr>velocity := Some va\<rparr>
         in Inr (next_w, config, s))))))))"

text \<open>\<^verbatim>\<open>rmsprop\<close>, lines 129-168.\<close>

definition rmsprop :: "store \<Rightarrow> addr \<Rightarrow> addr \<Rightarrow> config option \<Rightarrow> error + (addr \<times> config \<times> store)" where
  "rmsprop s w dw config =
     (let config = (case config of None \<Rightarrow> empty_config | Some c \<Rightarrow> c);
          config = config\<lparr>learning_rate := setdefault (learning_rate config) (1 / 100)\<rparr>;
          config = config\<lparr>decay_rate := setdefault (decay_rate config) (99 / 100)\<rparr>;
          config = config\<lparr>epsilon := setdefault (epsilon config) (1 / 10 ^ 8)\<rparr>;
          (ca, s) = setdefault_array s (cache config) (zeros_like (s ! w));
          config = config\<lparr>cache := ca\<rparr>
      in andthen (lookup (epsilon config)) (\<lambda>eps.
         andthen (lookup (learning_rate config)) (\<lambda>lr.
         andthen (lookup (decay_rate config)) (\<lambda>beta.
         andthen (lookup (cache config)) (\<lambda>ca.
         andthen (broadcast (\<lambda>x y. x + y) (scale beta (s ! ca))
                    (scale (1 - beta) (np_power (s ! dw) 2))) (\<lambda>c1.
         let (ca, s) = alloc s c1 in
         andthen (np_sqrt (s ! ca)) (\<lambda>r.
         andthen (divide (scale lr (s ! dw)) (add_scalar r eps)) (\<lambda>q.
         andthen (isub s w q) (\<lambda>s.
         let next_w = w;
             config = config\<lparr>cache := Some ca\<rparr>
         in Inr (next_w, config, s))))))))))"

text \<open>\<^verbatim>\<open>adam\<close>, lines 171-225.\<close>

definition adam :: "store \<Rightarrow> addr \<Rightarrow> addr \<Rightarrow> config option \<Rightarrow> error + (addr \<times> config \<times> store)" where
  "adam s w dw config =
     (let config = (case config of None \<Rightarrow> empty_config | Some c \<Rightarrow> c);
          config = config\<lparr>learning_rate := setdefault (learning_rate config) (1 / 1000)\<rparr>;
          config = config\<lparr>beta1 := setdefault (beta1 config) (9 / 10)\<rparr>;
          config = config\<lparr>beta2 := setdefault (beta2 config) (999 / 1000)\<rparr>;
          config = config\<lparr>epsilon := setdefault (epsilon config) (1 / 10 ^ 8)\<rparr>;
          (ma, s) = setdefault_array s (m config) (zeros_like (s ! w));
          config = config\<lparr>m := ma\<rparr>;
          (va, s) = setdefault_array s (v config) (zeros_like (s ! w));
          config = config\<lparr>v := va\<rparr>;
          config = config\<lparr>t := setdefault (t config) 1\<rparr>
      in andthen (lookup (learning_rate config)) (\<lambda>lr.
         andthen (lookup (beta1 config)) (\<lambda>b1.
         andthen (lookup (beta2 config)) (\<lambda>b2.
         andthen (lookup (m config)) (\<lambda>ma.
         andthen (lookup (v config)) (\<lambda>va.
         andthen (lookup (t config)) (\<lambda>tt.
         andthen (lookup (epsilon config)) (\<lambda>eps.
         andthen (broadcast (\<lambda>x y. x + y) (scale b1 (s ! ma)) (scale (1 - b1) (s ! dw))) (\<lambda>m1.
         let (ma, s) = alloc s m1 in
         andthen (broadcast (\<lambda>x y. x + y) (scale b2 (s ! va))
                    (scale (1 - b2) (np_power (s ! dw) 2))) (\<lambda>v1.
         let (va, s) = alloc s v1 in
         andthen (py_pow b1 tt) (\<lambda>p1.
         andthen (divide_scalar (s ! ma) (1 - p1)) (\<lambda>mt.
         andthen (py_pow b2 tt) (\<lambda>p2.
         andthen (divide_scalar (s ! va) (1 - p2)) (\<lambda>vt.
         andthen (np_sqrt vt) (\<lambda>r.
         andthen (divide (scale lr mt) (add_scalar r eps)) (\<lambda>q.
         andthen (isub s w q) (\<lambda>s.
         let next_w = w;
             config = config\<lparr>m := Some ma\<rparr>;
             config = config\<lparr>v := Some va\<rparr>
         in andthen (lookup (t config)) (\<lambda>tt.
            let config = config\<lparr>t := Some (tt + 1)\<rparr>
            in Inr (next_w, config, s)))))))))))))))))))"

subsection \<open>Definitions used to state the properties\<close>

text \<open>
  The alternative expression that the source keeps as a comment in \<^verbatim>\<open>nesterov_momentum\<close>
  (lines 118-121): the same rule with \<^verbatim>\<open>next_w = w - lr * dw + mu * v\<close> in place of
  \<^verbatim>\<open>next_w = w - mu * prev_v + (1 + mu) * v\<close>.
\<close>

definition nesterov_momentum_alternative ::
  "store \<Rightarrow> addr \<Rightarrow> addr \<Rightarrow> config option \<Rightarrow> error + (addr \<times> config \<times> store)" where
  "nesterov_momentum_alternative s w dw config =
     (let config = (case config of None \<Rightarrow> empty_config | Some c \<Rightarrow> c);
          config = config\<lparr>learning_rate := setdefault (learning_rate config) (1 / 100)\<rparr>;
          config = config\<lparr>momentum := setdefault (momentum config) (9 / 10)\<rparr>;
          (va, s) = setdefault_array s (velocity config) (zeros_like (s ! w));
          config = config\<lparr>velocity := va\<rparr>
      in andthen (lookup (momentum config)) (\<lambda>mu.
         andthen (lookup (learning_rate config)) (\<lambda>lr.
         andthen (lookup (velocity config)) (\<lambda>va.
         let (prev_v, s) = alloc s (s ! va) in
         andthen (broadcast (\<lambda>x y. x - y) (scale mu (s ! prev_v)) (scale lr (s ! dw))) (\<lambda>v1.
         let (va, s) = alloc s v1 in
         andthen (broadcast (\<lambda>x y. x - y) (s ! w) (scale lr (s ! dw))) (\<lambda>d1.
         andthen (broadcast (\<lambda>x y. x + y) d1 (scale mu (s ! va))) (\<lambda>n1.
         let (next_w, s) = alloc s n1;
             config = config\<lparr>velocity := Some va\<rparr>
         in Inr (next_w, config, s))))))))"

text \<open>The array that a call hands back as \<^verbatim>\<open>next_w\<close>.\<close>

definition returned :: "error + (addr \<times> config \<times> store) \<Rightarrow> error + ndarray" where
  "returned r = (case r of Inl e \<Rightarrow> Inl e | Inr (next_w, config, s) \<Rightarrow> Inr (s ! next_w))"

text \<open>
  The documented defaults of each rule, as the configuration that an empty dictionary
  becomes: the hyperparameters of the docstrings, and for the state the addresses of the
  arrays that \<^verbatim>\<open>np.zeros_like(w)\<close> creates, and 1 for the counter of \<^verbatim>\<open>adam\<close>.
\<close>

definition sgd_defaults :: config where
  "sgd_defaults = empty_config\<lparr>learning_rate := Some (1 / 100)\<rparr>"

definition momentum_defaults :: "addr \<Rightarrow> config" where
  "momentum_defaults va =
     empty_config\<lparr>learning_rate := Some (1 / 100), momentum := Some (9 / 10),
       velocity := Some va\<rparr>"

definition rmsprop_defaults :: "addr \<Rightarrow> config" where
  "rmsprop_defaults ca =
     empty_config\<lparr>learning_rate := Some (1 / 100), decay_rate := Some (99 / 100),
       epsilon := Some (1 / 10 ^ 8), cache := Some ca\<rparr>"

definition adam_defaults :: "addr \<Rightarrow> addr \<Rightarrow> config" where
  "adam_defaults ma va =
     empty_config\<lparr>learning_rate := Some (1 / 1000), beta1 := Some (9 / 10),
       beta2 := Some (999 / 1000), epsilon := Some (1 / 10 ^ 8), m := Some ma, v := Some va,
       t := Some 1\<rparr>"

text \<open>
  The caller of the spec: it starts without a configuration, calls a rule, and calls it
  again with the \<^verbatim>\<open>next_w\<close> and the \<^verbatim>\<open>config\<close> that the first call returned.
\<close>

definition twice ::
  "(store \<Rightarrow> addr \<Rightarrow> addr \<Rightarrow> config option \<Rightarrow> error + (addr \<times> config \<times> store)) \<Rightarrow>
   store \<Rightarrow> addr \<Rightarrow> addr \<Rightarrow> error + (addr \<times> config \<times> store)" where
  "twice rule s w dw =
     andthen (rule s w dw None) (\<lambda>(next_w, config, s'). rule s' next_w dw (Some config))"



section \<open>Basic facts about the operations\<close>

lemma andthen_Inr [simp]: "andthen (Inr x) f = f x"
  by (simp add: andthen_def)

lemma andthen_Inl [simp]: "andthen (Inl e) f = Inl e"
  by (simp add: andthen_def)

lemma lookup_Some [simp]: "lookup (Some x) = Inr x"
  by (simp add: lookup_def)

lemma lookup_None [simp]: "lookup None = Inl KeyError"
  by (simp add: lookup_def)

lemma setdefault_Some [simp]: "setdefault (Some x) d = Some x"
  by (simp add: setdefault_def)

lemma setdefault_None [simp]: "setdefault None d = Some d"
  by (simp add: setdefault_def)

lemma setdefault_array_Some [simp]: "setdefault_array s (Some a) d = (Some a, s)"
  by (simp add: setdefault_array_def)

lemma setdefault_array_None [simp]: "setdefault_array s None d = (Some (length s), s @ [d])"
  by (simp add: setdefault_array_def alloc_def)

lemma alloc_simp [simp]: "alloc s a = (length s, s @ [a])"
  by (simp add: alloc_def)

lemma length_scale [simp]: "length (scale c a) = length a"
  by (simp add: scale_def)

lemma nth_scale [simp]: "i < length a \<Longrightarrow> scale c a ! i = c * a ! i"
  by (simp add: scale_def)

lemma length_np_power [simp]: "length (np_power a n) = length a"
  by (simp add: np_power_def)

lemma nth_np_power [simp]: "i < length a \<Longrightarrow> np_power a n ! i = (a ! i) ^ n"
  by (simp add: np_power_def)

lemma length_add_scalar [simp]: "length (add_scalar a c) = length a"
  by (simp add: add_scalar_def)

lemma nth_add_scalar [simp]: "i < length a \<Longrightarrow> add_scalar a c ! i = a ! i + c"
  by (simp add: add_scalar_def)

lemma broadcast_same: "length a = length b \<Longrightarrow> broadcast f a b = Inr (map2 f a b)"
  by (simp add: broadcast_def)

lemma isub_same:
  "length x = length (s ! w) \<Longrightarrow> isub s w x = Inr (s[w := map2 (\<lambda>a b. a - b) (s ! w) x])"
  by (simp add: isub_def)

lemma sgd_resolved:
  assumes "length (s ! dw) = length (s ! w)" "learning_rate cfg = Some lr"
  shows "sgd s w dw (Some cfg) =
    Inr (w, cfg, s[w := map2 (\<lambda>a b. a - b) (s ! w) (scale lr (s ! dw))])"
  using assms by (simp add: sgd_def isub_same)

lemma sgd_momentum_resolved:
  assumes "w < length s" "dw < length s" "va < length s"
    "length (s ! dw) = length (s ! w)" "length (s ! va) = length (s ! w)"
    "learning_rate cfg = Some lr" "momentum cfg = Some mu" "velocity cfg = Some va"
  shows "sgd_momentum s w dw (Some cfg) =
    Inr (Suc (length s), cfg\<lparr>velocity := Some (length s)\<rparr>,
      s @ [map2 (\<lambda>x y. x - y) (scale mu (s ! va)) (scale lr (s ! dw)),
           map2 (\<lambda>x y. x + y) (s ! w)
             (map2 (\<lambda>x y. x - y) (scale mu (s ! va)) (scale lr (s ! dw)))])"
  using assms by (simp add: sgd_momentum_def broadcast_same nth_append)

lemma nesterov_momentum_resolved:
  assumes "w < length s" "dw < length s" "va < length s"
    "length (s ! dw) = length (s ! w)" "length (s ! va) = length (s ! w)"
    "learning_rate cfg = Some lr" "momentum cfg = Some mu" "velocity cfg = Some va"
  shows "nesterov_momentum s w dw (Some cfg) =
    Inr (length s + 2, cfg\<lparr>velocity := Some (length s + 1)\<rparr>,
      s @ [s ! va,
           map2 (\<lambda>x y. x - y) (scale mu (s ! va)) (scale lr (s ! dw)),
           map2 (\<lambda>x y. x + y) (map2 (\<lambda>x y. x - y) (s ! w) (scale mu (s ! va)))
             (scale (1 + mu) (map2 (\<lambda>x y. x - y) (scale mu (s ! va)) (scale lr (s ! dw))))])"
  using assms by (simp add: nesterov_momentum_def broadcast_same nth_append)

lemma np_sqrt_ok:
  "(\<forall>i < length a. 0 \<le> a ! i) \<Longrightarrow> np_sqrt a = Inr (map sqrt a)"
  by (fastforce simp: np_sqrt_def in_set_conv_nth)

lemma divide_ok:
  "length a = length b \<Longrightarrow> (\<forall>i < length b. b ! i \<noteq> 0) \<Longrightarrow>
   divide a b = Inr (map2 (\<lambda>x y. x / y) a b)"
  by (auto simp: divide_def broadcast_same in_set_conv_nth)

lemma divide_scalar_ok: "c \<noteq> 0 \<Longrightarrow> divide_scalar a c = Inr (map (\<lambda>x. x / c) a)"
  by (simp add: divide_scalar_def)

lemma py_pow_ok: "b \<noteq> 0 \<or> 0 \<le> n \<Longrightarrow> py_pow b n = Inr (power_int b n)"
  by (auto simp: py_pow_def)

lemma rmsprop_resolved:
  assumes "w < length s" "dw < length s" "ca < length s"
    "length (s ! dw) = length (s ! w)" "length (s ! ca) = length (s ! w)"
    "learning_rate cfg = Some lr" "decay_rate cfg = Some beta" "epsilon cfg = Some eps"
    "cache cfg = Some ca"
    "\<forall>i < length (s ! w). 0 \<le> beta * s ! ca ! i + (1 - beta) * (s ! dw ! i)\<^sup>2"
    "\<forall>i < length (s ! w). sqrt (beta * s ! ca ! i + (1 - beta) * (s ! dw ! i)\<^sup>2) + eps \<noteq> 0"
  shows "rmsprop s w dw (Some cfg) =
    Inr (w, cfg\<lparr>cache := Some (length s)\<rparr>,
      (s @ [map2 (\<lambda>x y. x + y) (scale beta (s ! ca)) (scale (1 - beta) (np_power (s ! dw) 2))])
        [w := map2 (\<lambda>a b. a - b) (s ! w)
           (map2 (\<lambda>x y. x / y) (scale lr (s ! dw))
              (add_scalar (map sqrt (map2 (\<lambda>x y. x + y) (scale beta (s ! ca))
                  (scale (1 - beta) (np_power (s ! dw) 2)))) eps))])"
  using assms
  by (simp add: rmsprop_def broadcast_same nth_append np_sqrt_ok divide_ok isub_same)


lemma adam_resolved:
  assumes "w < length s" "dw < length s" "ma < length s" "va < length s"
    "length (s ! dw) = length (s ! w)" "length (s ! ma) = length (s ! w)"
    "length (s ! va) = length (s ! w)"
    "learning_rate cfg = Some lr" "beta1 cfg = Some b1" "beta2 cfg = Some b2"
    "epsilon cfg = Some eps" "m cfg = Some ma" "v cfg = Some va" "t cfg = Some tt"
    "b1 \<noteq> 0 \<or> 0 \<le> tt" "b2 \<noteq> 0 \<or> 0 \<le> tt"
    "power_int b1 tt \<noteq> 1" "power_int b2 tt \<noteq> 1"
    "\<forall>i < length (s ! w).
       0 \<le> (b2 * s ! va ! i + (1 - b2) * (s ! dw ! i)\<^sup>2) / (1 - power_int b2 tt)"
    "\<forall>i < length (s ! w).
       sqrt ((b2 * s ! va ! i + (1 - b2) * (s ! dw ! i)\<^sup>2) / (1 - power_int b2 tt)) + eps \<noteq> 0"
  shows "adam s w dw (Some cfg) =
    Inr (w, cfg\<lparr>m := Some (length s), v := Some (length s + 1), t := Some (tt + 1)\<rparr>,
      (s @ [map2 (\<lambda>x y. x + y) (scale b1 (s ! ma)) (scale (1 - b1) (s ! dw)),
            map2 (\<lambda>x y. x + y) (scale b2 (s ! va)) (scale (1 - b2) (np_power (s ! dw) 2))])
        [w := map2 (\<lambda>a b. a - b) (s ! w)
           (map2 (\<lambda>x y. x / y)
              (scale lr (map (\<lambda>x. x / (1 - power_int b1 tt))
                 (map2 (\<lambda>x y. x + y) (scale b1 (s ! ma)) (scale (1 - b1) (s ! dw)))))
              (add_scalar (map sqrt (map (\<lambda>x. x / (1 - power_int b2 tt))
                 (map2 (\<lambda>x y. x + y) (scale b2 (s ! va))
                    (scale (1 - b2) (np_power (s ! dw) 2))))) eps))])"
  using assms
  by (simp add: adam_def broadcast_same nth_append np_sqrt_ok divide_ok isub_same
      divide_scalar_ok py_pow_ok)

section \<open>Closed forms of the rules on arrays of one shape\<close>

text \<open>
  When \<^verbatim>\<open>w\<close>, \<^verbatim>\<open>dw\<close> and the state arrays have one length and every option is
  present, each rule returns a result that can be written down entry by entry.
\<close>

lemma tab_eqI:
  "length xs = n \<Longrightarrow> (\<And>i. i < n \<Longrightarrow> xs ! i = f i) \<Longrightarrow> xs = map f [0..<n]"
  by (auto intro!: nth_equalityI)

lemma sgd_tab:
  assumes "length (s ! dw) = length (s ! w)" "learning_rate cfg = Some lr"
  shows "sgd s w dw (Some cfg) =
    Inr (w, cfg, s[w := map (\<lambda>i. s ! w ! i - lr * s ! dw ! i) [0..<length (s ! w)]])"
proof -
  have "map2 (\<lambda>a b. a - b) (s ! w) (scale lr (s ! dw)) =
      map (\<lambda>i. s ! w ! i - lr * s ! dw ! i) [0..<length (s ! w)]"
    by (rule tab_eqI) (simp_all add: assms)
  then show ?thesis
    by (simp add: sgd_resolved [OF assms])
qed

lemma sgd_momentum_tab:
  assumes "w < length s" "dw < length s" "va < length s"
    "length (s ! dw) = length (s ! w)" "length (s ! va) = length (s ! w)"
    "learning_rate cfg = Some lr" "momentum cfg = Some mu" "velocity cfg = Some va"
  shows "sgd_momentum s w dw (Some cfg) =
    Inr (length s + 1, cfg\<lparr>velocity := Some (length s)\<rparr>,
      s @ [map (\<lambda>i. mu * s ! va ! i - lr * s ! dw ! i) [0..<length (s ! w)],
           map (\<lambda>i. s ! w ! i + (mu * s ! va ! i - lr * s ! dw ! i)) [0..<length (s ! w)]])"
proof -
  have 1: "map2 (\<lambda>x y. x - y) (scale mu (s ! va)) (scale lr (s ! dw)) =
      map (\<lambda>i. mu * s ! va ! i - lr * s ! dw ! i) [0..<length (s ! w)]"
    by (rule tab_eqI) (simp_all add: assms)
  have 2: "map2 (\<lambda>x y. x + y) (s ! w)
        (map (\<lambda>i. mu * s ! va ! i - lr * s ! dw ! i) [0..<length (s ! w)]) =
      map (\<lambda>i. s ! w ! i + (mu * s ! va ! i - lr * s ! dw ! i)) [0..<length (s ! w)]"
    by (rule tab_eqI) simp_all
  show ?thesis
    by (simp add: sgd_momentum_resolved [OF assms] 1 2)
qed

lemma nesterov_momentum_tab:
  assumes "w < length s" "dw < length s" "va < length s"
    "length (s ! dw) = length (s ! w)" "length (s ! va) = length (s ! w)"
    "learning_rate cfg = Some lr" "momentum cfg = Some mu" "velocity cfg = Some va"
  shows "nesterov_momentum s w dw (Some cfg) =
    Inr (length s + 2, cfg\<lparr>velocity := Some (length s + 1)\<rparr>,
      s @ [s ! va,
           map (\<lambda>i. mu * s ! va ! i - lr * s ! dw ! i) [0..<length (s ! w)],
           map (\<lambda>i. s ! w ! i - mu * s ! va ! i +
                  (1 + mu) * (mu * s ! va ! i - lr * s ! dw ! i)) [0..<length (s ! w)]])"
proof -
  have 1: "map2 (\<lambda>x y. x - y) (scale mu (s ! va)) (scale lr (s ! dw)) =
      map (\<lambda>i. mu * s ! va ! i - lr * s ! dw ! i) [0..<length (s ! w)]"
    by (rule tab_eqI) (simp_all add: assms)
  have 2: "map2 (\<lambda>x y. x + y) (map2 (\<lambda>x y. x - y) (s ! w) (scale mu (s ! va)))
        (scale (1 + mu) (map (\<lambda>i. mu * s ! va ! i - lr * s ! dw ! i) [0..<length (s ! w)])) =
      map (\<lambda>i. s ! w ! i - mu * s ! va ! i +
             (1 + mu) * (mu * s ! va ! i - lr * s ! dw ! i)) [0..<length (s ! w)]"
    by (rule tab_eqI) (simp_all add: assms)
  show ?thesis
    by (simp add: nesterov_momentum_resolved [OF assms] 1 2)
qed

lemma rmsprop_tab:
  assumes "w < length s" "dw < length s" "ca < length s"
    "length (s ! dw) = length (s ! w)" "length (s ! ca) = length (s ! w)"
    "learning_rate cfg = Some lr" "decay_rate cfg = Some beta" "epsilon cfg = Some eps"
    "cache cfg = Some ca"
    "\<forall>i < length (s ! w). 0 \<le> beta * s ! ca ! i + (1 - beta) * (s ! dw ! i)\<^sup>2"
    "\<forall>i < length (s ! w). sqrt (beta * s ! ca ! i + (1 - beta) * (s ! dw ! i)\<^sup>2) + eps \<noteq> 0"
  shows "rmsprop s w dw (Some cfg) =
    Inr (w, cfg\<lparr>cache := Some (length s)\<rparr>,
      (s @ [map (\<lambda>i. beta * s ! ca ! i + (1 - beta) * (s ! dw ! i)\<^sup>2) [0..<length (s ! w)]])
        [w := map (\<lambda>i. s ! w ! i - lr * s ! dw ! i /
                 (sqrt (beta * s ! ca ! i + (1 - beta) * (s ! dw ! i)\<^sup>2) + eps))
               [0..<length (s ! w)]])"
proof -
  have 1: "map2 (\<lambda>x y. x + y) (scale beta (s ! ca)) (scale (1 - beta) (np_power (s ! dw) 2)) =
      map (\<lambda>i. beta * s ! ca ! i + (1 - beta) * (s ! dw ! i)\<^sup>2) [0..<length (s ! w)]"
    by (rule tab_eqI) (simp_all add: assms)
  have 2: "map2 (\<lambda>a b. a - b) (s ! w)
        (map2 (\<lambda>x y. x / y) (scale lr (s ! dw))
           (add_scalar (map sqrt
              (map (\<lambda>i. beta * s ! ca ! i + (1 - beta) * (s ! dw ! i)\<^sup>2)
                 [0..<length (s ! w)])) eps)) =
      map (\<lambda>i. s ! w ! i - lr * s ! dw ! i /
             (sqrt (beta * s ! ca ! i + (1 - beta) * (s ! dw ! i)\<^sup>2) + eps))
        [0..<length (s ! w)]"
    by (rule tab_eqI) (simp_all add: assms)
  show ?thesis
    unfolding rmsprop_resolved [OF assms] 1 2 ..
qed

lemma adam_tab:
  assumes "w < length s" "dw < length s" "ma < length s" "va < length s"
    "length (s ! dw) = length (s ! w)" "length (s ! ma) = length (s ! w)"
    "length (s ! va) = length (s ! w)"
    "learning_rate cfg = Some lr" "beta1 cfg = Some b1" "beta2 cfg = Some b2"
    "epsilon cfg = Some eps" "m cfg = Some ma" "v cfg = Some va" "t cfg = Some tt"
    "b1 \<noteq> 0 \<or> 0 \<le> tt" "b2 \<noteq> 0 \<or> 0 \<le> tt"
    "power_int b1 tt \<noteq> 1" "power_int b2 tt \<noteq> 1"
    "\<forall>i < length (s ! w).
       0 \<le> (b2 * s ! va ! i + (1 - b2) * (s ! dw ! i)\<^sup>2) / (1 - power_int b2 tt)"
    "\<forall>i < length (s ! w).
       sqrt ((b2 * s ! va ! i + (1 - b2) * (s ! dw ! i)\<^sup>2) / (1 - power_int b2 tt)) + eps \<noteq> 0"
  shows "adam s w dw (Some cfg) =
    Inr (w, cfg\<lparr>m := Some (length s), v := Some (length s + 1), t := Some (tt + 1)\<rparr>,
      (s @ [map (\<lambda>i. b1 * s ! ma ! i + (1 - b1) * s ! dw ! i) [0..<length (s ! w)],
            map (\<lambda>i. b2 * s ! va ! i + (1 - b2) * (s ! dw ! i)\<^sup>2) [0..<length (s ! w)]])
        [w := map (\<lambda>i. s ! w ! i -
                 lr * ((b1 * s ! ma ! i + (1 - b1) * s ! dw ! i) / (1 - power_int b1 tt)) /
                 (sqrt ((b2 * s ! va ! i + (1 - b2) * (s ! dw ! i)\<^sup>2) /
                    (1 - power_int b2 tt)) + eps))
               [0..<length (s ! w)]])"
proof -
  have 1: "map2 (\<lambda>x y. x + y) (scale b1 (s ! ma)) (scale (1 - b1) (s ! dw)) =
      map (\<lambda>i. b1 * s ! ma ! i + (1 - b1) * s ! dw ! i) [0..<length (s ! w)]"
    by (rule tab_eqI) (simp_all add: assms)
  have 2: "map2 (\<lambda>x y. x + y) (scale b2 (s ! va)) (scale (1 - b2) (np_power (s ! dw) 2)) =
      map (\<lambda>i. b2 * s ! va ! i + (1 - b2) * (s ! dw ! i)\<^sup>2) [0..<length (s ! w)]"
    by (rule tab_eqI) (simp_all add: assms)
  have 3: "map2 (\<lambda>a b. a - b) (s ! w)
        (map2 (\<lambda>x y. x / y)
           (scale lr (map (\<lambda>x. x / (1 - power_int b1 tt))
              (map (\<lambda>i. b1 * s ! ma ! i + (1 - b1) * s ! dw ! i) [0..<length (s ! w)])))
           (add_scalar (map sqrt (map (\<lambda>x. x / (1 - power_int b2 tt))
              (map (\<lambda>i. b2 * s ! va ! i + (1 - b2) * (s ! dw ! i)\<^sup>2)
                 [0..<length (s ! w)]))) eps)) =
      map (\<lambda>i. s ! w ! i -
             lr * ((b1 * s ! ma ! i + (1 - b1) * s ! dw ! i) / (1 - power_int b1 tt)) /
             (sqrt ((b2 * s ! va ! i + (1 - b2) * (s ! dw ! i)\<^sup>2) /
                (1 - power_int b2 tt)) + eps))
        [0..<length (s ! w)]"
    by (rule tab_eqI) (simp_all add: assms)
  show ?thesis
    unfolding adam_resolved [OF assms] 1 2 3 ..
qed

lemma returned_Inr [simp]: "returned (Inr (a, c, s)) = Inr (s ! a)"
  by (simp add: returned_def)

lemma sgd_momentum_fresh_velocity:
  assumes "velocity cfg = None"
  shows "sgd_momentum s w dw (Some cfg) =
    sgd_momentum (s @ [zeros_like (s ! w)]) w dw (Some (cfg\<lparr>velocity := Some (length s)\<rparr>))"
  using assms by (simp add: sgd_momentum_def)

lemma nesterov_momentum_fresh_velocity:
  assumes "velocity cfg = None"
  shows "nesterov_momentum s w dw (Some cfg) =
    nesterov_momentum (s @ [zeros_like (s ! w)]) w dw (Some (cfg\<lparr>velocity := Some (length s)\<rparr>))"
  using assms by (simp add: nesterov_momentum_def)

subsection \<open>What a successful call does to the store\<close>

lemma andthen_eq_Inr: "andthen r f = Inr y \<longleftrightarrow> (\<exists>x. r = Inr x \<and> f x = Inr y)"
  by (cases r) simp_all

lemma isub_Inr:
  assumes "isub s w x = Inr s'"
  shows "\<exists>y. s' = s[w := y] \<and> length y = length (s ! w)"
  using assms by (auto simp: isub_def split: if_splits)








lemmas eval_defs = sgd_def sgd_momentum_def nesterov_momentum_def rmsprop_def adam_def
  empty_config_def zeros_like_def broadcast_def scale_def np_power_def py_pow_def
  divide_scalar_def np_sqrt_def divide_def add_scalar_def isub_def


subsection \<open>A call without a configuration\<close>

lemma sgd_None: "sgd s w dw None = sgd s w dw (Some sgd_defaults)"
  by (simp add: sgd_def sgd_defaults_def empty_config_def)

lemma sgd_momentum_None:
  "sgd_momentum s w dw None =
   sgd_momentum (s @ [zeros_like (s ! w)]) w dw (Some (momentum_defaults (length s)))"
  by (simp add: sgd_momentum_def momentum_defaults_def empty_config_def)

lemma nesterov_momentum_None:
  "nesterov_momentum s w dw None =
   nesterov_momentum (s @ [zeros_like (s ! w)]) w dw (Some (momentum_defaults (length s)))"
  by (simp add: nesterov_momentum_def momentum_defaults_def empty_config_def)

lemma rmsprop_None:
  "rmsprop s w dw None =
   rmsprop (s @ [zeros_like (s ! w)]) w dw (Some (rmsprop_defaults (length s)))"
  by (simp add: rmsprop_def rmsprop_defaults_def empty_config_def)

lemma nth_append_Suc_length: "(xs @ ys) ! Suc (length xs) = ys ! 1"
  using nth_append_length_plus [of xs ys 1] by simp

lemma adam_None:
  assumes "w < length s"
  shows "adam s w dw None =
   adam (s @ [zeros_like (s ! w), zeros_like (s ! w)]) w dw
     (Some (adam_defaults (length s) (length s + 1)))"
proof -
  have "(s @ [zeros_like (s ! w)]) ! w = s ! w"
    using assms by (simp add: nth_append)
  then show ?thesis
    by (simp add: adam_def adam_defaults_def empty_config_def nth_append_Suc_length)
qed

section \<open>Adam\<close>




section \<open>Momentum\<close>

text \<open>
  Claim C6. With \<^verbatim>\<open>momentum\<close> \<open>mu\<close>, \<^verbatim>\<open>learning_rate\<close> \<open>lr\<close> and a velocity array
  present, \<^verbatim>\<open>sgd_momentum\<close> computes \<open>v' = mu * v - lr * dw\<close> entry by entry, returns a
  new array \<open>next_w = w + v'\<close>, and the velocity it leaves in the configuration is that
  same \<open>v'\<close>.
\<close>

theorem sgd_momentum_step:
  assumes "w < length s" "dw < length s" "va < length s"
    and "length (s ! dw) = length (s ! w)" "length (s ! va) = length (s ! w)"
    and "learning_rate cfg = Some lr" "momentum cfg = Some mu" "velocity cfg = Some va"
  shows "let n = length (s ! w);
             v' = map (\<lambda>i. mu * s ! va ! i - lr * s ! dw ! i) [0..<n];
             next_w = map (\<lambda>i. s ! w ! i + v' ! i) [0..<n]
         in sgd_momentum s w dw (Some cfg) =
              Inr (length s + 1, cfg\<lparr>velocity := Some (length s)\<rparr>, s @ [v', next_w])"
  by (simp add: sgd_momentum_tab [OF assms] Let_def)

theorem sgd_momentum_step_witness:
  "sgd_momentum [[1, 2], [1 / 10, - 1 / 5], [1, 1]] 0 1
     (Some (empty_config\<lparr>learning_rate := Some (1 / 10), momentum := Some (1 / 2),
        velocity := Some 2\<rparr>)) =
   Inr (4, empty_config\<lparr>learning_rate := Some (1 / 10), momentum := Some (1 / 2),
        velocity := Some 3\<rparr>,
     [[1, 2], [1 / 10, - 1 / 5], [1, 1], [49 / 100, 52 / 100], [149 / 100, 252 / 100]])"
  using sgd_momentum_step [of 0 "[[1, 2], [1 / 10, - 1 / 5], [1, 1]]" 1 2
      "empty_config\<lparr>learning_rate := Some (1 / 10), momentum := Some (1 / 2),
           velocity := Some 2\<rparr>" "1 / 10" "1 / 2"]
  by (simp add: Let_def)

section \<open>Nesterov momentum\<close>

text \<open>
  Claim C4. With \<^verbatim>\<open>momentum\<close> \<open>mu\<close>, \<^verbatim>\<open>learning_rate\<close> \<open>lr\<close> and a velocity array at
  address \<open>va\<close>, \<^verbatim>\<open>nesterov_momentum\<close> first copies the velocity to a fresh address
  (\<open>length s\<close>, the snapshot \<open>v_prev\<close>), then writes \<open>v' = mu * v_prev - lr * dw\<close> to
  a second fresh address, which becomes the velocity of the configuration, and
  \<open>next_w = w - mu * v_prev + (1 + mu) * v'\<close> to a third. The store only grows: the
  snapshot is an array of its own, distinct from the buffer that is written back, and
  the old velocity buffer keeps its contents.
\<close>

theorem nesterov_momentum_step:
  assumes "w < length s" "dw < length s" "va < length s"
    and "length (s ! dw) = length (s ! w)" "length (s ! va) = length (s ! w)"
    and "learning_rate cfg = Some lr" "momentum cfg = Some mu" "velocity cfg = Some va"
  shows "let n = length (s ! w);
             v_prev = s ! va;
             v' = map (\<lambda>i. mu * v_prev ! i - lr * s ! dw ! i) [0..<n];
             next_w = map (\<lambda>i. s ! w ! i - mu * v_prev ! i + (1 + mu) * v' ! i) [0..<n];
             s' = s @ [v_prev, v', next_w]
         in nesterov_momentum s w dw (Some cfg) =
              Inr (length s + 2, cfg\<lparr>velocity := Some (length s + 1)\<rparr>, s') \<and>
            s' ! length s = v_prev \<and> s' ! va = v_prev"
  using assms(3) by (simp add: nesterov_momentum_tab [OF assms] Let_def nth_append)

theorem nesterov_momentum_step_witness:
  "nesterov_momentum [[1, 2], [1 / 10, - 1 / 5], [1, 1]] 0 1
     (Some (empty_config\<lparr>learning_rate := Some (1 / 10), momentum := Some (1 / 2),
        velocity := Some 2\<rparr>)) =
   Inr (5, empty_config\<lparr>learning_rate := Some (1 / 10), momentum := Some (1 / 2),
        velocity := Some 4\<rparr>,
     [[1, 2], [1 / 10, - 1 / 5], [1, 1], [1, 1], [49 / 100, 52 / 100],
      [1 - 1 / 2 + 3 / 2 * (49 / 100), 2 - 1 / 2 + 3 / 2 * (52 / 100)]])"
  using nesterov_momentum_step [of 0 "[[1, 2], [1 / 10, - 1 / 5], [1, 1]]" 1 2
      "empty_config\<lparr>learning_rate := Some (1 / 10), momentum := Some (1 / 2),
           velocity := Some 2\<rparr>" "1 / 10" "1 / 2"]
  by (simp add: Let_def)

section \<open>Nesterov momentum and its look-ahead form\<close>

lemma nesterov_momentum_alternative_tab:
  assumes "w < length s" "dw < length s" "va < length s"
    "length (s ! dw) = length (s ! w)" "length (s ! va) = length (s ! w)"
    "learning_rate cfg = Some lr" "momentum cfg = Some mu" "velocity cfg = Some va"
  shows "nesterov_momentum_alternative s w dw (Some cfg) =
    Inr (length s + 2, cfg\<lparr>velocity := Some (length s + 1)\<rparr>,
      s @ [s ! va,
           map (\<lambda>i. mu * s ! va ! i - lr * s ! dw ! i) [0..<length (s ! w)],
           map (\<lambda>i. s ! w ! i - lr * s ! dw ! i +
                  mu * (mu * s ! va ! i - lr * s ! dw ! i)) [0..<length (s ! w)]])"
proof -
  have 1: "map2 (\<lambda>x y. x - y) (scale mu (s ! va)) (scale lr (s ! dw)) =
      map (\<lambda>i. mu * s ! va ! i - lr * s ! dw ! i) [0..<length (s ! w)]"
    by (rule tab_eqI) (simp_all add: assms)
  have 2: "map2 (\<lambda>x y. x + y) (map2 (\<lambda>x y. x - y) (s ! w) (scale lr (s ! dw)))
        (scale mu (map (\<lambda>i. mu * s ! va ! i - lr * s ! dw ! i) [0..<length (s ! w)])) =
      map (\<lambda>i. s ! w ! i - lr * s ! dw ! i +
             mu * (mu * s ! va ! i - lr * s ! dw ! i)) [0..<length (s ! w)]"
    by (rule tab_eqI) (simp_all add: assms)
  have "nesterov_momentum_alternative s w dw (Some cfg) =
    Inr (length s + 2, cfg\<lparr>velocity := Some (length s + 1)\<rparr>,
      s @ [s ! va,
           map2 (\<lambda>x y. x - y) (scale mu (s ! va)) (scale lr (s ! dw)),
           map2 (\<lambda>x y. x + y) (map2 (\<lambda>x y. x - y) (s ! w) (scale lr (s ! dw)))
             (scale mu (map2 (\<lambda>x y. x - y) (scale mu (s ! va)) (scale lr (s ! dw))))])"
    using assms
    by (simp add: nesterov_momentum_alternative_def broadcast_same nth_append)
  then show ?thesis
    unfolding 1 2 .
qed

text \<open>
  Claim C5. On arrays of one shape the rule as implemented,
  \<open>next_w = w - mu * v_prev + (1 + mu) * v'\<close> with \<open>v' = mu * v_prev - lr * dw\<close>, and the
  look-ahead expression \<open>next_w = w - lr * dw + mu * v'\<close> give the same outcome: the same
  \<^verbatim>\<open>next_w\<close>, the same configuration and the same store. The arithmetic is exact.
\<close>

theorem nesterov_lookahead_equivalent:
  assumes "w < length s" "dw < length s" "va < length s"
    and "length (s ! dw) = length (s ! w)" "length (s ! va) = length (s ! w)"
    and "learning_rate cfg = Some lr" "momentum cfg = Some mu" "velocity cfg = Some va"
  shows "nesterov_momentum s w dw (Some cfg) = nesterov_momentum_alternative s w dw (Some cfg)"
  unfolding nesterov_momentum_tab [OF assms] nesterov_momentum_alternative_tab [OF assms]
  by (simp add: algebra_simps)

theorem nesterov_lookahead_equivalent_witness:
  "nesterov_momentum [[1, 2], [1 / 10, - 1 / 5], [1, 1]] 0 1
     (Some (empty_config\<lparr>learning_rate := Some (1 / 10), momentum := Some (1 / 2),
        velocity := Some 2\<rparr>)) =
   nesterov_momentum_alternative [[1, 2], [1 / 10, - 1 / 5], [1, 1]] 0 1
     (Some (empty_config\<lparr>learning_rate := Some (1 / 10), momentum := Some (1 / 2),
        velocity := Some 2\<rparr>)) \<and>
   nesterov_momentum_alternative [[1, 2], [1 / 10, - 1 / 5], [1, 1]] 0 1
     (Some (empty_config\<lparr>learning_rate := Some (1 / 10), momentum := Some (1 / 2),
        velocity := Some 2\<rparr>)) =
   Inr (5, empty_config\<lparr>learning_rate := Some (1 / 10), momentum := Some (1 / 2),
        velocity := Some 4\<rparr>,
     [[1, 2], [1 / 10, - 1 / 5], [1, 1], [1, 1], [49 / 100, 52 / 100],
      [1 - 1 / 100 + 49 / 200, 2 + 2 / 100 + 52 / 200]])"
proof -
  have "nesterov_momentum_alternative [[1, 2], [1 / 10, - 1 / 5], [1, 1]] 0 1
     (Some (empty_config\<lparr>learning_rate := Some (1 / 10), momentum := Some (1 / 2),
        velocity := Some 2\<rparr>)) =
   Inr (5, empty_config\<lparr>learning_rate := Some (1 / 10), momentum := Some (1 / 2),
        velocity := Some 4\<rparr>,
     [[1, 2], [1 / 10, - 1 / 5], [1, 1], [1, 1], [49 / 100, 52 / 100],
      [1 - 1 / 100 + 49 / 200, 2 + 2 / 100 + 52 / 200]])"
    by (simp add: nesterov_momentum_alternative_def broadcast_def scale_def empty_config_def)
  then show ?thesis
    using nesterov_lookahead_equivalent [of 0 "[[1, 2], [1 / 10, - 1 / 5], [1, 1]]" 1 2
      "empty_config\<lparr>learning_rate := Some (1 / 10), momentum := Some (1 / 2),
           velocity := Some 2\<rparr>" "1 / 10" "1 / 2"]
    by simp
qed

section \<open>Momentum zero is plain gradient descent\<close>

text \<open>
  Claim C7. For arrays \<^verbatim>\<open>w\<close> and \<^verbatim>\<open>dw\<close> of one shape and any learning rate,
  \<^verbatim>\<open>sgd_momentum\<close> and \<^verbatim>\<open>nesterov_momentum\<close> with \<^verbatim>\<open>momentum = 0\<close> hand back the same
  array as \<^verbatim>\<open>sgd\<close> with that learning rate, \<open>w - lr * dw\<close>, whether the velocity is
  absent or an array of the shape of \<^verbatim>\<open>w\<close>. The arithmetic is exact, so the equality
  holds without a tolerance.
\<close>

theorem momentum_zero_is_sgd:
  assumes "w < length s" "dw < length s" "length (s ! dw) = length (s ! w)"
    and "learning_rate cfg = Some lr" "momentum cfg = Some 0"
    and "case velocity cfg of None \<Rightarrow> True
         | Some va \<Rightarrow> va < length s \<and> length (s ! va) = length (s ! w)"
    and "learning_rate scfg = Some lr"
  shows "returned (sgd s w dw (Some scfg)) =
           Inr (map (\<lambda>i. s ! w ! i - lr * s ! dw ! i) [0..<length (s ! w)]) \<and>
         returned (sgd_momentum s w dw (Some cfg)) = returned (sgd s w dw (Some scfg)) \<and>
         returned (nesterov_momentum s w dw (Some cfg)) = returned (sgd s w dw (Some scfg))"
proof -
  let ?z = "s @ [zeros_like (s ! w)]"
  have sgd: "returned (sgd s w dw (Some scfg)) =
      Inr (map (\<lambda>i. s ! w ! i - lr * s ! dw ! i) [0..<length (s ! w)])"
    using assms(1) by (simp add: sgd_tab [OF assms(3) assms(7)])
  show ?thesis
  proof (cases "velocity cfg")
    case None
    have z: "w < length ?z" "dw < length ?z" "length s < length ?z"
      "length (?z ! dw) = length (?z ! w)" "length (?z ! length s) = length (?z ! w)"
      using assms(1,2,3) by (simp_all add: nth_append zeros_like_def)
    have c: "learning_rate (cfg\<lparr>velocity := Some (length s)\<rparr>) = Some lr"
      "momentum (cfg\<lparr>velocity := Some (length s)\<rparr>) = Some 0"
      "velocity (cfg\<lparr>velocity := Some (length s)\<rparr>) = Some (length s)"
      using assms(4,5) by simp_all
    have "returned (sgd_momentum s w dw (Some cfg)) =
        Inr (map (\<lambda>i. s ! w ! i - lr * s ! dw ! i) [0..<length (s ! w)])"
      unfolding sgd_momentum_fresh_velocity [OF None] sgd_momentum_tab [OF z c]
      using assms(1,2) by (simp add: nth_append)
    moreover have "returned (nesterov_momentum s w dw (Some cfg)) =
        Inr (map (\<lambda>i. s ! w ! i - lr * s ! dw ! i) [0..<length (s ! w)])"
      unfolding nesterov_momentum_fresh_velocity [OF None] nesterov_momentum_tab [OF z c]
      using assms(1,2) by (simp add: nth_append)
    ultimately show ?thesis
      using sgd by simp
  next
    case (Some va)
    then have va: "va < length s" "length (s ! va) = length (s ! w)"
      using assms(6) by simp_all
    have "returned (sgd_momentum s w dw (Some cfg)) =
        Inr (map (\<lambda>i. s ! w ! i - lr * s ! dw ! i) [0..<length (s ! w)])"
      unfolding sgd_momentum_tab [OF assms(1,2) va(1) assms(3) va(2) assms(4,5) Some]
      by (simp add: nth_append)
    moreover have "returned (nesterov_momentum s w dw (Some cfg)) =
        Inr (map (\<lambda>i. s ! w ! i - lr * s ! dw ! i) [0..<length (s ! w)])"
      unfolding nesterov_momentum_tab [OF assms(1,2) va(1) assms(3) va(2) assms(4,5) Some]
      by (simp add: nth_append)
    ultimately show ?thesis
      using sgd by simp
  qed
qed

theorem momentum_zero_is_sgd_witness:
  "returned (sgd [[1, 2], [1 / 10, - 1 / 5], [1, 1]] 0 1
     (Some (empty_config\<lparr>learning_rate := Some (1 / 10)\<rparr>))) = Inr [99 / 100, 202 / 100] \<and>
   returned (sgd_momentum [[1, 2], [1 / 10, - 1 / 5], [1, 1]] 0 1
     (Some (empty_config\<lparr>learning_rate := Some (1 / 10), momentum := Some 0,
        velocity := Some 2\<rparr>))) = Inr [99 / 100, 202 / 100] \<and>
   returned (nesterov_momentum [[1, 2], [1 / 10, - 1 / 5], [1, 1]] 0 1
     (Some (empty_config\<lparr>learning_rate := Some (1 / 10), momentum := Some 0,
        velocity := Some 2\<rparr>))) = Inr [99 / 100, 202 / 100]"
  using momentum_zero_is_sgd [of 0 "[[1, 2], [1 / 10, - 1 / 5], [1, 1]]" 1
      "empty_config\<lparr>learning_rate := Some (1 / 10), momentum := Some 0,
           velocity := Some 2\<rparr>" "1 / 10"
      "empty_config\<lparr>learning_rate := Some (1 / 10)\<rparr>"]
  by simp

section \<open>RMSProp\<close>

text \<open>
  Claim C3. With \<^verbatim>\<open>decay_rate\<close> \<open>beta\<close>, \<^verbatim>\<open>epsilon\<close> \<open>eps\<close>, \<^verbatim>\<open>learning_rate\<close> \<open>lr\<close> and
  a cache array \<open>c\<close> present, \<^verbatim>\<open>rmsprop\<close> stores the new cache
  \<open>c' = beta * c + (1 - beta) * dw\<^sup>2\<close> and overwrites \<^verbatim>\<open>w\<close> with
  \<open>w - lr * dw / (sqrt c' + eps)\<close>, entry by entry: \<open>eps\<close> is added to the square root.
  After one step from a zero cache with every entry of the gradient equal to \<open>g\<close>, the
  cache is \<open>(1 - beta) * g\<^sup>2\<close> and \<open>next_w = w - lr * g / (sqrt ((1 - beta) * g\<^sup>2) + eps)\<close>.
  The two last hypotheses say that the real-valued formula is defined: no square root of
  a negative number, no division by zero.
\<close>

theorem rmsprop_step:
  assumes "w < length s" "dw < length s" "ca < length s"
    and "length (s ! dw) = length (s ! w)" "length (s ! ca) = length (s ! w)"
    and "learning_rate cfg = Some lr" "decay_rate cfg = Some beta" "epsilon cfg = Some eps"
    and "cache cfg = Some ca"
    and "\<forall>i < length (s ! w). 0 \<le> beta * s ! ca ! i + (1 - beta) * (s ! dw ! i)\<^sup>2"
    and "\<forall>i < length (s ! w).
           sqrt (beta * s ! ca ! i + (1 - beta) * (s ! dw ! i)\<^sup>2) + eps \<noteq> 0"
  shows "let n = length (s ! w);
             c' = map (\<lambda>i. beta * s ! ca ! i + (1 - beta) * (s ! dw ! i)\<^sup>2) [0..<n];
             next_w = map (\<lambda>i. s ! w ! i - lr * s ! dw ! i / (sqrt (c' ! i) + eps)) [0..<n]
         in rmsprop s w dw (Some cfg) =
              Inr (w, cfg\<lparr>cache := Some (length s)\<rparr>, (s @ [c'])[w := next_w]) \<and>
            ((\<forall>i < n. s ! ca ! i = 0 \<and> s ! dw ! i = g) \<longrightarrow>
               c' = replicate n ((1 - beta) * g\<^sup>2) \<and>
               next_w = map (\<lambda>i. s ! w ! i - lr * g / (sqrt ((1 - beta) * g\<^sup>2) + eps)) [0..<n])"
proof -
  let ?n = "length (s ! w)"
  let ?c = "map (\<lambda>i. beta * s ! ca ! i + (1 - beta) * (s ! dw ! i)\<^sup>2) [0..<?n]"
  let ?nw = "map (\<lambda>i. s ! w ! i - lr * s ! dw ! i / (sqrt (?c ! i) + eps)) [0..<?n]"
  have 0: "?nw = map (\<lambda>i. s ! w ! i - lr * s ! dw ! i /
      (sqrt (beta * s ! ca ! i + (1 - beta) * (s ! dw ! i)\<^sup>2) + eps)) [0..<?n]"
    by simp
  have 1: "rmsprop s w dw (Some cfg) =
      Inr (w, cfg\<lparr>cache := Some (length s)\<rparr>, (s @ [?c])[w := ?nw])"
    unfolding 0 by (rule rmsprop_tab [OF assms])
  have 2: "?c = replicate ?n ((1 - beta) * g\<^sup>2)"
    if "\<forall>i < ?n. s ! ca ! i = 0 \<and> s ! dw ! i = g"
    using that by (auto intro!: nth_equalityI)
  have 3: "?nw = map (\<lambda>i. s ! w ! i - lr * g / (sqrt ((1 - beta) * g\<^sup>2) + eps)) [0..<?n]"
    if "\<forall>i < ?n. s ! ca ! i = 0 \<and> s ! dw ! i = g"
    using that by simp
  show ?thesis
    unfolding Let_def using 1 2 3 by blast
qed

theorem rmsprop_step_witness:
  "rmsprop [[1, 3], [2, 2], [0, 0]] 0 1
     (Some (empty_config\<lparr>learning_rate := Some (1 / 10), decay_rate := Some (3 / 4),
        epsilon := Some (1 / 2), cache := Some 2\<rparr>)) =
   Inr (0, empty_config\<lparr>learning_rate := Some (1 / 10), decay_rate := Some (3 / 4),
        epsilon := Some (1 / 2), cache := Some 3\<rparr>,
     [[1 - 1 / 10 * 2 / (1 + 1 / 2), 3 - 1 / 10 * 2 / (1 + 1 / 2)], [2, 2], [0, 0], [1, 1]])"
  using rmsprop_step [of 0 "[[1, 3], [2, 2], [0, 0]]" 1 2
      "empty_config\<lparr>learning_rate := Some (1 / 10), decay_rate := Some (3 / 4),
        epsilon := Some (1 / 2), cache := Some 2\<rparr>" "1 / 10" "3 / 4" "1 / 2" 2]
  by (simp add: Let_def All_less_Suc)

section \<open>A zero gradient moves nothing\<close>

lemma zeros_like_nth [simp]: "i < length a \<Longrightarrow> zeros_like a ! i = 0"
  by (simp add: zeros_like_def)

lemma length_zeros_like [simp]: "length (zeros_like a) = length a"
  by (simp add: zeros_like_def)

lemma sgd_zero:
  assumes "w < length s" "s ! dw = zeros_like (s ! w)" "learning_rate cfg = Some lr"
  shows "sgd s w dw (Some cfg) = Inr (w, cfg, s)"
proof -
  have "map (\<lambda>i. s ! w ! i - lr * s ! dw ! i) [0..<length (s ! w)] = s ! w"
    by (rule nth_equalityI) (simp_all add: assms(2))
  then show ?thesis
    using assms by (simp add: sgd_tab)
qed

lemma sgd_momentum_zero:
  assumes "w < length s" "dw < length s" "va < length s"
    "s ! dw = zeros_like (s ! w)" "s ! va = zeros_like (s ! w)"
    "learning_rate cfg = Some lr" "momentum cfg = Some mu" "velocity cfg = Some va"
  shows "sgd_momentum s w dw (Some cfg) =
    Inr (length s + 1, cfg\<lparr>velocity := Some (length s)\<rparr>, s @ [zeros_like (s ! w), s ! w])"
proof -
  have 1: "map (\<lambda>i. mu * s ! va ! i - lr * s ! dw ! i) [0..<length (s ! w)] = zeros_like (s ! w)"
    by (rule nth_equalityI) (simp_all add: assms(4,5))
  have 2: "map (\<lambda>i. s ! w ! i + (mu * s ! va ! i - lr * s ! dw ! i)) [0..<length (s ! w)] = s ! w"
    by (rule nth_equalityI) (simp_all add: assms(4,5))
  have "length (s ! dw) = length (s ! w)" "length (s ! va) = length (s ! w)"
    by (simp_all add: assms(4,5))
  from sgd_momentum_tab [OF assms(1,2,3) this assms(6,7,8)] show ?thesis
    unfolding 1 2 .
qed

lemma nesterov_momentum_zero:
  assumes "w < length s" "dw < length s" "va < length s"
    "s ! dw = zeros_like (s ! w)" "s ! va = zeros_like (s ! w)"
    "learning_rate cfg = Some lr" "momentum cfg = Some mu" "velocity cfg = Some va"
  shows "nesterov_momentum s w dw (Some cfg) =
    Inr (length s + 2, cfg\<lparr>velocity := Some (length s + 1)\<rparr>,
      s @ [zeros_like (s ! w), zeros_like (s ! w), s ! w])"
proof -
  have 1: "map (\<lambda>i. mu * s ! va ! i - lr * s ! dw ! i) [0..<length (s ! w)] = zeros_like (s ! w)"
    by (rule nth_equalityI) (simp_all add: assms(4,5))
  have 2: "map (\<lambda>i. s ! w ! i - mu * s ! va ! i +
      (1 + mu) * (mu * s ! va ! i - lr * s ! dw ! i)) [0..<length (s ! w)] = s ! w"
    by (rule nth_equalityI) (simp_all add: assms(4,5))
  have "length (s ! dw) = length (s ! w)" "length (s ! va) = length (s ! w)"
    by (simp_all add: assms(4,5))
  from nesterov_momentum_tab [OF assms(1,2,3) this assms(6,7,8)]
  have "nesterov_momentum s w dw (Some cfg) =
    Inr (length s + 2, cfg\<lparr>velocity := Some (length s + 1)\<rparr>,
      s @ [s ! va, zeros_like (s ! w), s ! w])"
    unfolding 1 2 .
  then show ?thesis
    by (simp add: assms(5))
qed

lemma rmsprop_zero:
  assumes "w < length s" "dw < length s" "ca < length s"
    "s ! dw = zeros_like (s ! w)" "s ! ca = zeros_like (s ! w)"
    "learning_rate cfg = Some lr" "decay_rate cfg = Some beta" "epsilon cfg = Some eps"
    "cache cfg = Some ca" "eps \<noteq> 0"
  shows "rmsprop s w dw (Some cfg) =
    Inr (w, cfg\<lparr>cache := Some (length s)\<rparr>, s @ [zeros_like (s ! w)])"
proof -
  have 1: "map (\<lambda>i. beta * s ! ca ! i + (1 - beta) * (s ! dw ! i)\<^sup>2) [0..<length (s ! w)] =
      zeros_like (s ! w)"
    by (rule nth_equalityI) (simp_all add: assms(4,5))
  have 2: "map (\<lambda>i. s ! w ! i - lr * s ! dw ! i /
      (sqrt (beta * s ! ca ! i + (1 - beta) * (s ! dw ! i)\<^sup>2) + eps)) [0..<length (s ! w)] =
      s ! w"
    by (rule nth_equalityI) (simp_all add: assms(4,5))
  have 3: "length (s ! dw) = length (s ! w)" "length (s ! ca) = length (s ! w)"
    by (simp_all add: assms(4,5))
  have 4: "\<forall>i < length (s ! w). 0 \<le> beta * s ! ca ! i + (1 - beta) * (s ! dw ! i)\<^sup>2"
    "\<forall>i < length (s ! w). sqrt (beta * s ! ca ! i + (1 - beta) * (s ! dw ! i)\<^sup>2) + eps \<noteq> 0"
    using assms(10) by (simp_all add: assms(4,5))
  have "(s @ [zeros_like (s ! w)])[w := s ! w] = s @ [zeros_like (s ! w)]"
    using assms(1) by (simp add: list_update_append)
  with rmsprop_tab [OF assms(1,2,3) 3 assms(6,7,8,9) 4] show ?thesis
    unfolding 1 2 by simp
qed

lemma adam_zero:
  assumes "w < length s" "dw < length s" "ma < length s" "va < length s"
    "s ! dw = zeros_like (s ! w)" "s ! ma = zeros_like (s ! w)" "s ! va = zeros_like (s ! w)"
    "learning_rate cfg = Some lr" "beta1 cfg = Some b1" "beta2 cfg = Some b2"
    "epsilon cfg = Some eps" "m cfg = Some ma" "v cfg = Some va" "t cfg = Some tt"
    "b1 \<noteq> 0 \<or> 0 \<le> tt" "b2 \<noteq> 0 \<or> 0 \<le> tt"
    "power_int b1 tt \<noteq> 1" "power_int b2 tt \<noteq> 1" "eps \<noteq> 0"
  shows "adam s w dw (Some cfg) =
    Inr (w, cfg\<lparr>m := Some (length s), v := Some (length s + 1), t := Some (tt + 1)\<rparr>,
      s @ [zeros_like (s ! w), zeros_like (s ! w)])"
proof -
  have 1: "map (\<lambda>i. b1 * s ! ma ! i + (1 - b1) * s ! dw ! i) [0..<length (s ! w)] =
      zeros_like (s ! w)"
    by (rule nth_equalityI) (simp_all add: assms(5,6,7))
  have 2: "map (\<lambda>i. b2 * s ! va ! i + (1 - b2) * (s ! dw ! i)\<^sup>2) [0..<length (s ! w)] =
      zeros_like (s ! w)"
    by (rule nth_equalityI) (simp_all add: assms(5,6,7))
  have 3: "map (\<lambda>i. s ! w ! i -
      lr * ((b1 * s ! ma ! i + (1 - b1) * s ! dw ! i) / (1 - power_int b1 tt)) /
      (sqrt ((b2 * s ! va ! i + (1 - b2) * (s ! dw ! i)\<^sup>2) / (1 - power_int b2 tt)) + eps))
      [0..<length (s ! w)] = s ! w"
    by (rule nth_equalityI) (simp_all add: assms(5,6,7))
  have 4: "length (s ! dw) = length (s ! w)" "length (s ! ma) = length (s ! w)"
    "length (s ! va) = length (s ! w)"
    by (simp_all add: assms(5,6,7))
  have 5: "\<forall>i < length (s ! w).
      0 \<le> (b2 * s ! va ! i + (1 - b2) * (s ! dw ! i)\<^sup>2) / (1 - power_int b2 tt)"
    "\<forall>i < length (s ! w).
      sqrt ((b2 * s ! va ! i + (1 - b2) * (s ! dw ! i)\<^sup>2) / (1 - power_int b2 tt)) + eps \<noteq> 0"
    using assms(19) by (simp_all add: assms(5,6,7))
  have "(s @ [zeros_like (s ! w), zeros_like (s ! w)])[w := s ! w] =
      s @ [zeros_like (s ! w), zeros_like (s ! w)]"
    using assms(1) by (simp add: list_update_append)
  with adam_tab [OF assms(1,2,3,4) 4 assms(8-18) 5] show ?thesis
    unfolding 1 2 3 by simp
qed


lemma sgd_twice_zero:
  assumes "w < length s" "s ! dw = zeros_like (s ! w)"
  shows "sgd s w dw None = Inr (w, sgd_defaults, s)"
    and "twice sgd s w dw = Inr (w, sgd_defaults, s)"
proof -
  have c: "learning_rate sgd_defaults = Some (1 / 100)"
    by (simp add: sgd_defaults_def)
  show 1: "sgd s w dw None = Inr (w, sgd_defaults, s)"
    unfolding sgd_None by (rule sgd_zero [OF assms c])
  show "twice sgd s w dw = Inr (w, sgd_defaults, s)"
    unfolding twice_def 1 by (simp add: sgd_zero [OF assms c])
qed

lemma sgd_momentum_twice_zero:
  assumes "w < length s" "dw < length s" "s ! dw = zeros_like (s ! w)"
  shows "returned (sgd_momentum s w dw None) = Inr (s ! w)"
    and "returned (twice sgd_momentum s w dw) = Inr (s ! w)"
proof -
  let ?z = "zeros_like (s ! w)"
  let ?c = "momentum_defaults (length s)"
  have c: "learning_rate (?c\<lparr>velocity := Some a\<rparr>) = Some (1 / 100)"
    "momentum (?c\<lparr>velocity := Some a\<rparr>) = Some (9 / 10)"
    "velocity (?c\<lparr>velocity := Some a\<rparr>) = Some a" for a
    by (simp_all add: momentum_defaults_def)
  have c0: "?c\<lparr>velocity := Some (length s)\<rparr> = ?c"
    by (simp add: momentum_defaults_def)
  have 1: "sgd_momentum s w dw None =
      Inr (length s + 2, ?c\<lparr>velocity := Some (length s + 1)\<rparr>, s @ [?z, ?z, s ! w])"
    unfolding sgd_momentum_None
    using assms sgd_momentum_zero [of w "s @ [?z]" dw "length s" ?c, OF _ _ _ _ _ c [of "length s", unfolded c0]]
    by (simp add: nth_append)
  show "returned (sgd_momentum s w dw None) = Inr (s ! w)"
    unfolding 1 by (simp add: nth_append)
  show "returned (twice sgd_momentum s w dw) = Inr (s ! w)"
    unfolding twice_def 1
    using assms sgd_momentum_zero [of "length s + 2" "s @ [?z, ?z, s ! w]" dw "length s + 1"
        "?c\<lparr>velocity := Some (length s + 1)\<rparr>", OF _ _ _ _ _ c]
    by (simp add: nth_append)
qed


lemma nesterov_momentum_twice_zero:
  assumes "w < length s" "dw < length s" "s ! dw = zeros_like (s ! w)"
  shows "returned (nesterov_momentum s w dw None) = Inr (s ! w)"
    and "returned (twice nesterov_momentum s w dw) = Inr (s ! w)"
proof -
  let ?z = "zeros_like (s ! w)"
  let ?c = "momentum_defaults (length s)"
  have c: "learning_rate (?c\<lparr>velocity := Some a\<rparr>) = Some (1 / 100)"
    "momentum (?c\<lparr>velocity := Some a\<rparr>) = Some (9 / 10)"
    "velocity (?c\<lparr>velocity := Some a\<rparr>) = Some a" for a
    by (simp_all add: momentum_defaults_def)
  have c0: "?c\<lparr>velocity := Some (length s)\<rparr> = ?c"
    by (simp add: momentum_defaults_def)
  have 1: "nesterov_momentum s w dw None =
      Inr (length s + 3, ?c\<lparr>velocity := Some (length s + 2)\<rparr>, s @ [?z, ?z, ?z, s ! w])"
    unfolding nesterov_momentum_None
    using assms nesterov_momentum_zero [of w "s @ [?z]" dw "length s" ?c,
        OF _ _ _ _ _ c [of "length s", unfolded c0]]
    by (simp add: nth_append)
  show "returned (nesterov_momentum s w dw None) = Inr (s ! w)"
    unfolding 1 by (simp add: nth_append)
  show "returned (twice nesterov_momentum s w dw) = Inr (s ! w)"
    unfolding twice_def 1
    using assms nesterov_momentum_zero [of "length s + 3" "s @ [?z, ?z, ?z, s ! w]" dw
        "length s + 2" "?c\<lparr>velocity := Some (length s + 2)\<rparr>", OF _ _ _ _ _ c]
    by (simp add: nth_append)
qed

lemma rmsprop_twice_zero:
  assumes "w < length s" "dw < length s" "s ! dw = zeros_like (s ! w)"
  shows "returned (rmsprop s w dw None) = Inr (s ! w)"
    and "returned (twice rmsprop s w dw) = Inr (s ! w)"
proof -
  let ?z = "zeros_like (s ! w)"
  let ?c = "rmsprop_defaults (length s)"
  have c: "learning_rate (?c\<lparr>cache := Some a\<rparr>) = Some (1 / 100)"
    "decay_rate (?c\<lparr>cache := Some a\<rparr>) = Some (99 / 100)"
    "epsilon (?c\<lparr>cache := Some a\<rparr>) = Some (1 / 10 ^ 8)"
    "cache (?c\<lparr>cache := Some a\<rparr>) = Some a" for a
    by (simp_all add: rmsprop_defaults_def)
  have c0: "?c\<lparr>cache := Some (length s)\<rparr> = ?c"
    by (simp add: rmsprop_defaults_def)
  have e: "(1 / 10 ^ 8 :: real) \<noteq> 0"
    by simp
  have 1: "rmsprop s w dw None =
      Inr (w, ?c\<lparr>cache := Some (length s + 1)\<rparr>, s @ [?z, ?z])"
    unfolding rmsprop_None
    using assms rmsprop_zero [of w "s @ [?z]" dw "length s" ?c,
        OF _ _ _ _ _ c [of "length s", unfolded c0] e]
    by (simp add: nth_append)
  show "returned (rmsprop s w dw None) = Inr (s ! w)"
    unfolding 1 using assms(1) by (simp add: nth_append)
  show "returned (twice rmsprop s w dw) = Inr (s ! w)"
    unfolding twice_def 1
    using assms rmsprop_zero [of w "s @ [?z, ?z]" dw "length s + 1"
        "?c\<lparr>cache := Some (length s + 1)\<rparr>", OF _ _ _ _ _ c e]
    by (simp add: nth_append)
qed

lemma adam_twice_zero:
  assumes "w < length s" "dw < length s" "s ! dw = zeros_like (s ! w)"
  shows "returned (adam s w dw None) = Inr (s ! w)"
    and "returned (twice adam s w dw) = Inr (s ! w)"
proof -
  let ?z = "zeros_like (s ! w)"
  let ?c = "adam_defaults (length s) (length s + 1)"
  let ?c1 = "?c\<lparr>m := Some (length s + 2), v := Some (length s + 3), t := Some 2\<rparr>"
  have c: "learning_rate ?c = Some (1 / 1000)" "beta1 ?c = Some (9 / 10)"
    "beta2 ?c = Some (999 / 1000)" "epsilon ?c = Some (1 / 10 ^ 8)"
    "m ?c = Some (length s)" "v ?c = Some (length s + 1)" "t ?c = Some 1"
    by (simp_all add: adam_defaults_def)
  have c1: "learning_rate ?c1 = Some (1 / 1000)" "beta1 ?c1 = Some (9 / 10)"
    "beta2 ?c1 = Some (999 / 1000)" "epsilon ?c1 = Some (1 / 10 ^ 8)"
    "m ?c1 = Some (length s + 2)" "v ?c1 = Some (length s + 3)" "t ?c1 = Some 2"
    by (simp_all add: adam_defaults_def)
  have p: "(9 / 10 :: real) \<noteq> 0 \<or> (0::int) \<le> k" "(999 / 1000 :: real) \<noteq> 0 \<or> (0::int) \<le> k"
    for k
    by simp_all
  have q: "power_int (9 / 10 :: real) 1 \<noteq> 1" "power_int (999 / 1000 :: real) 1 \<noteq> 1"
    "power_int (9 / 10 :: real) 2 \<noteq> 1" "power_int (999 / 1000 :: real) 2 \<noteq> 1"
    by (simp_all add: power2_eq_square)
  have e: "(1 / 10 ^ 8 :: real) \<noteq> 0"
    by simp
  have 1: "adam s w dw None = Inr (w, ?c1, s @ [?z, ?z, ?z, ?z])"
    unfolding adam_None [OF assms(1)]
    using assms adam_zero [of w "s @ [?z, ?z]" dw "length s" "length s + 1" ?c,
        OF _ _ _ _ _ _ _ c p q(1,2) e]
    by (simp add: nth_append)
  show "returned (adam s w dw None) = Inr (s ! w)"
    unfolding 1 using assms(1) by (simp add: nth_append)
  have 2: "adam (s @ [?z, ?z, ?z, ?z]) w dw (Some ?c1) =
      Inr (w, ?c1\<lparr>m := Some (length s + 4), v := Some (length s + 5), t := Some 3\<rparr>,
        s @ [?z, ?z, ?z, ?z, ?z, ?z])"
    using assms adam_zero [of w "s @ [?z, ?z, ?z, ?z]" dw "length s + 2" "length s + 3" ?c1,
        OF _ _ _ _ _ _ _ c1 p q(3,4) e]
    by (simp add: nth_append)
  have "twice adam s w dw = adam (s @ [?z, ?z, ?z, ?z]) w dw (Some ?c1)"
    unfolding twice_def 1 by (simp only: andthen_Inr prod.case)
  then show "returned (twice adam s w dw) = Inr (s ! w)"
    unfolding 2 using assms(1) by (simp add: nth_append)
qed

text \<open>
  Claim C9. Starting without a configuration, with \<^verbatim>\<open>dw\<close> the zero vector of the shape
  of \<^verbatim>\<open>w\<close>, each of the five rules returns, and hands back an array equal to \<^verbatim>\<open>w\<close>,
  on the first call and on a second call that is given the first call's results. The
  velocity, cache and moments start at zero and stay zero. A call that returns did not
  divide by zero: for \<^verbatim>\<open>rmsprop\<close> and \<^verbatim>\<open>adam\<close> the denominators are \<open>sqrt 0 + epsilon\<close>
  with the default \<open>epsilon = 1e-8\<close>.
\<close>

theorem zero_gradient_no_drift:
  assumes "w < length s" "dw < length s" "s ! dw = zeros_like (s ! w)"
  shows "returned (sgd s w dw None) = Inr (s ! w) \<and>
         returned (twice sgd s w dw) = Inr (s ! w) \<and>
         returned (sgd_momentum s w dw None) = Inr (s ! w) \<and>
         returned (twice sgd_momentum s w dw) = Inr (s ! w) \<and>
         returned (nesterov_momentum s w dw None) = Inr (s ! w) \<and>
         returned (twice nesterov_momentum s w dw) = Inr (s ! w) \<and>
         returned (rmsprop s w dw None) = Inr (s ! w) \<and>
         returned (twice rmsprop s w dw) = Inr (s ! w) \<and>
         returned (adam s w dw None) = Inr (s ! w) \<and>
         returned (twice adam s w dw) = Inr (s ! w)"
  using assms
  by (simp add: sgd_twice_zero sgd_momentum_twice_zero nesterov_momentum_twice_zero
      rmsprop_twice_zero adam_twice_zero)

theorem zero_gradient_no_drift_witness:
  "returned (twice sgd [[1, 2], [0, 0]] 0 1) = Inr [1, 2] \<and>
   returned (twice sgd_momentum [[1, 2], [0, 0]] 0 1) = Inr [1, 2] \<and>
   returned (twice nesterov_momentum [[1, 2], [0, 0]] 0 1) = Inr [1, 2] \<and>
   returned (twice rmsprop [[1, 2], [0, 0]] 0 1) = Inr [1, 2] \<and>
   returned (twice adam [[1, 2], [0, 0]] 0 1) = Inr [1, 2]"
  using zero_gradient_no_drift [of 0 "[[1, 2], [0, 0]]" 1]
  by (simp add: zeros_like_def)

section \<open>In-place and fresh results\<close>



section \<open>Arrays of different shapes\<close>









lemma lookup_setdefault [simp]:
  "lookup (setdefault cur d) = Inr (case cur of None \<Rightarrow> d | Some x \<Rightarrow> x)"
  by (cases cur) simp_all





















section \<open>Defaults\<close>

lemma sgd_config:
  assumes "sgd s w dw (Some cfg) = Inr (nw, cfg', s')"
  shows "cfg' = cfg\<lparr>learning_rate := setdefault (learning_rate cfg) (1 / 100)\<rparr>"
  using assms by (auto simp: sgd_def Let_def andthen_eq_Inr)

lemma sgd_momentum_config:
  assumes "sgd_momentum s w dw (Some cfg) = Inr (nw, cfg', s')"
  shows "cfg' = cfg\<lparr>learning_rate := setdefault (learning_rate cfg) (1 / 100),
           momentum := setdefault (momentum cfg) (9 / 10),
           velocity := Some (length s' - 2)\<rparr>"
  using assms
  by (cases "velocity cfg") (auto simp: sgd_momentum_def Let_def andthen_eq_Inr)

lemma nesterov_momentum_config:
  assumes "nesterov_momentum s w dw (Some cfg) = Inr (nw, cfg', s')"
  shows "cfg' = cfg\<lparr>learning_rate := setdefault (learning_rate cfg) (1 / 100),
           momentum := setdefault (momentum cfg) (9 / 10),
           velocity := Some (length s' - 2)\<rparr>"
  using assms
  by (cases "velocity cfg") (auto simp: nesterov_momentum_def Let_def andthen_eq_Inr)

lemma rmsprop_config:
  assumes "rmsprop s w dw (Some cfg) = Inr (nw, cfg', s')"
  shows "cfg' = cfg\<lparr>learning_rate := setdefault (learning_rate cfg) (1 / 100),
           decay_rate := setdefault (decay_rate cfg) (99 / 100),
           epsilon := setdefault (epsilon cfg) (1 / 10 ^ 8),
           cache := Some (length s' - 1)\<rparr>"
  using assms
  by (cases "cache cfg") (auto simp: rmsprop_def Let_def andthen_eq_Inr dest!: isub_Inr)

lemma adam_config:
  assumes "adam s w dw (Some cfg) = Inr (nw, cfg', s')"
  shows "cfg' = cfg\<lparr>learning_rate := setdefault (learning_rate cfg) (1 / 1000),
           beta1 := setdefault (beta1 cfg) (9 / 10),
           beta2 := setdefault (beta2 cfg) (999 / 1000),
           epsilon := setdefault (epsilon cfg) (1 / 10 ^ 8),
           m := Some (length s' - 2), v := Some (length s' - 1),
           t := Some ((case t cfg of None \<Rightarrow> 1 | Some k \<Rightarrow> k) + 1)\<rparr>"
  using assms
  by (cases "m cfg"; cases "v cfg")
    (auto simp: adam_def Let_def andthen_eq_Inr lookup_setdefault dest!: isub_Inr)


lemma empty_is_absent:
  "sgd s w dw (Some empty_config) = sgd s w dw None"
  "sgd_momentum s w dw (Some empty_config) = sgd_momentum s w dw None"
  "nesterov_momentum s w dw (Some empty_config) = nesterov_momentum s w dw None"
  "rmsprop s w dw (Some empty_config) = rmsprop s w dw None"
  "adam s w dw (Some empty_config) = adam s w dw None"
  by (simp_all add: sgd_def sgd_momentum_def nesterov_momentum_def rmsprop_def adam_def)

text \<open>
  Claim C8, amended. For every rule, an empty configuration and an absent one are the
  same, and a call without configuration is a call with the documented defaults: the
  default hyperparameters, fresh zero arrays of the shape of \<^verbatim>\<open>w\<close> for \<^verbatim>\<open>velocity\<close>,
  \<^verbatim>\<open>cache\<close>, \<^verbatim>\<open>m\<close> and \<^verbatim>\<open>v\<close>, and 1 for \<^verbatim>\<open>t\<close>. The configuration that a call
  returns is the one it was given with exactly the documented options of the rule set:
  a hyperparameter keeps the value it had and gets its default when it was missing; the
  state options do not keep a value, neither the caller's nor the default: \<^verbatim>\<open>velocity\<close>,
  \<^verbatim>\<open>cache\<close>, \<^verbatim>\<open>m\<close> and \<^verbatim>\<open>v\<close> name the arrays the step has just computed, and \<^verbatim>\<open>t\<close>
  is one more than it was (2 after a call that started from the default).
\<close>

theorem config_after_call:
  assumes "w < length s"
  shows "sgd s w dw (Some empty_config) = sgd s w dw None \<and>
         sgd_momentum s w dw (Some empty_config) = sgd_momentum s w dw None \<and>
         nesterov_momentum s w dw (Some empty_config) = nesterov_momentum s w dw None \<and>
         rmsprop s w dw (Some empty_config) = rmsprop s w dw None \<and>
         adam s w dw (Some empty_config) = adam s w dw None \<and>
         sgd s w dw None = sgd s w dw (Some sgd_defaults) \<and>
         sgd_momentum s w dw None =
           sgd_momentum (s @ [zeros_like (s ! w)]) w dw (Some (momentum_defaults (length s))) \<and>
         nesterov_momentum s w dw None =
           nesterov_momentum (s @ [zeros_like (s ! w)]) w dw
             (Some (momentum_defaults (length s))) \<and>
         rmsprop s w dw None =
           rmsprop (s @ [zeros_like (s ! w)]) w dw (Some (rmsprop_defaults (length s))) \<and>
         adam s w dw None =
           adam (s @ [zeros_like (s ! w), zeros_like (s ! w)]) w dw
             (Some (adam_defaults (length s) (length s + 1))) \<and>
         (sgd s w dw (Some cfg) = Inr (nw, cfg', s') \<longrightarrow>
            cfg' = cfg\<lparr>learning_rate := setdefault (learning_rate cfg) (1 / 100)\<rparr>) \<and>
         (sgd_momentum s w dw (Some cfg) = Inr (nw, cfg', s') \<longrightarrow>
            cfg' = cfg\<lparr>learning_rate := setdefault (learning_rate cfg) (1 / 100),
              momentum := setdefault (momentum cfg) (9 / 10),
              velocity := Some (length s' - 2)\<rparr>) \<and>
         (nesterov_momentum s w dw (Some cfg) = Inr (nw, cfg', s') \<longrightarrow>
            cfg' = cfg\<lparr>learning_rate := setdefault (learning_rate cfg) (1 / 100),
              momentum := setdefault (momentum cfg) (9 / 10),
              velocity := Some (length s' - 2)\<rparr>) \<and>
         (rmsprop s w dw (Some cfg) = Inr (nw, cfg', s') \<longrightarrow>
            cfg' = cfg\<lparr>learning_rate := setdefault (learning_rate cfg) (1 / 100),
              decay_rate := setdefault (decay_rate cfg) (99 / 100),
              epsilon := setdefault (epsilon cfg) (1 / 10 ^ 8),
              cache := Some (length s' - 1)\<rparr>) \<and>
         (adam s w dw (Some cfg) = Inr (nw, cfg', s') \<longrightarrow>
            cfg' = cfg\<lparr>learning_rate := setdefault (learning_rate cfg) (1 / 1000),
              beta1 := setdefault (beta1 cfg) (9 / 10),
              beta2 := setdefault (beta2 cfg) (999 / 1000),
              epsilon := setdefault (epsilon cfg) (1 / 10 ^ 8),
              m := Some (length s' - 2), v := Some (length s' - 1),
              t := Some ((case t cfg of None \<Rightarrow> 1 | Some k \<Rightarrow> k) + 1)\<rparr>)"
  using assms sgd_config [of s w dw cfg nw cfg' s']
    sgd_momentum_config [of s w dw cfg nw cfg' s']
    nesterov_momentum_config [of s w dw cfg nw cfg' s']
    rmsprop_config [of s w dw cfg nw cfg' s']
    adam_config [of s w dw cfg nw cfg' s']
  by (simp only: empty_is_absent sgd_None [symmetric] sgd_momentum_None [symmetric]
      nesterov_momentum_None [symmetric] rmsprop_None [symmetric] adam_None [symmetric])
    blast


theorem config_after_call_witness:
  "adam [[0], [1]] 0 1 (Some empty_config) =
     Inr (0, empty_config\<lparr>learning_rate := Some (1 / 1000), beta1 := Some (9 / 10),
         beta2 := Some (999 / 1000), epsilon := Some (1 / 10 ^ 8), m := Some 4, v := Some 5,
         t := Some 2\<rparr>,
       [[0 - 1 / 1000 / (1 + 1 / 10 ^ 8)], [1], [0], [0], [1 / 10], [1 / 1000]]) \<and>
   sgd_momentum [[1, 2], [1 / 10, - 1 / 5]] 0 1
       (Some (empty_config\<lparr>learning_rate := Some (1 / 2)\<rparr>)) =
     Inr (4, empty_config\<lparr>learning_rate := Some (1 / 2), momentum := Some (9 / 10),
         velocity := Some 3\<rparr>,
       [[1, 2], [1 / 10, - 1 / 5], [0, 0], [- 1 / 20, 1 / 10], [19 / 20, 21 / 10]])"
  using config_after_call [of 0 "[[0], [1]]" 1 empty_config 0
      "empty_config\<lparr>learning_rate := Some (1 / 1000), beta1 := Some (9 / 10),
         beta2 := Some (999 / 1000), epsilon := Some (1 / 10 ^ 8), m := Some 4, v := Some 5,
         t := Some 2\<rparr>"
      "[[0 - 1 / 1000 / (1 + 1 / 10 ^ 8)], [1], [0], [0], [1 / 10], [1 / 1000]]"]
    config_after_call [of 0 "[[1, 2], [1 / 10, - 1 / 5]]" 1
      "empty_config\<lparr>learning_rate := Some (1 / 2)\<rparr>" 4
      "empty_config\<lparr>learning_rate := Some (1 / 2), momentum := Some (9 / 10),
         velocity := Some 3\<rparr>"
      "[[1, 2], [1 / 10, - 1 / 5], [0, 0], [- 1 / 20, 1 / 10], [19 / 20, 21 / 10]]"]
  by (simp add: eval_defs sgd_defaults_def momentum_defaults_def rmsprop_defaults_def
      adam_defaults_def)

text \<open>
  The claim as it is written fails for the state options: the configuration that
  \<^verbatim>\<open>adam\<close> returns from an absent one has the counter at 2, not at its default 1, and
  its first moment is \<open>[1 / 10]\<close>, not the zero array.
\<close>

theorem returned_state_counterexample:
  "adam [[0], [1]] 0 1 None =
     Inr (0, adam_defaults 4 5\<lparr>t := Some 2\<rparr>,
       [[0 - 1 / 1000 / (1 + 1 / 10 ^ 8)], [1], [0], [0], [1 / 10], [1 / 1000]]) \<and>
   t (adam_defaults 4 5\<lparr>t := Some 2\<rparr>) \<noteq> Some 1 \<and>
   [[0 - 1 / 1000 / (1 + 1 / 10 ^ 8)], [1], [0], [0], [1 / 10], [1 / 1000 :: real]] ! 4 \<noteq>
     zeros_like [0]"
  by (simp add: eval_defs adam_defaults_def)

end
